theory Spec2Isabelle
  imports Complex_Main "HOL-Library.Word"
begin

section \<open>Vulkan select: a shallow embedding of ATen/native/vulkan/ops/Select.cpp\<close>

text \<open>
  The file holds one driver, \<open>select\<close>, and three dispatch plans, \<open>select_depth\<close>,
  \<open>select_height\<close> and \<open>select_width\<close>. Every plan is straight-line code against the
  Vulkan API of the backend: it makes the input device-resident, allocates an output
  texture, fills a parameter block, opens a pipeline barrier and submits one compute
  job. The embedding threads an explicit log of these API interactions through every
  function, in the order of the statements of the source.

  Integers: \<open>int64_t\<close> values (sizes, \<open>dim\<close>, \<open>index\<close>) are \<open>int\<close>; tensor sizes are
  never negative, so neither \<open>-size\<close> nor \<open>index + size\<close> (taken only when
  \<open>-size \<le> index < 0\<close>) can leave the 64-bit range. \<open>uint32_t\<close> values are \<open>32 word\<close>;
  the implicit conversion at the call of a plan is \<open>word_of_int\<close>, which reduces
  modulo \<open>2 ^ 32\<close> as the C++ conversion does.
\<close>

subsection \<open>Data\<close>

text \<open>
  \<open>api::utils::uvec3\<close>: three unsigned 32-bit components, read as \<open>data[i]\<close>. The
  plans read components 0 and 1 only.
\<close>

datatype uvec3 = Uvec3 "32 word" "32 word" "32 word"

fun data :: "uvec3 \<Rightarrow> nat \<Rightarrow> 32 word" where
  "data (Uvec3 x y z) i = (if i = 0 then x else if i = 1 then y else z)"

text \<open>
  \<open>vTensor\<close>: the device tensor. \<open>v_image\<close> identifies the texture that backs it. The
  element type \<open>'d\<close> stands for \<open>c10::ScalarType\<close>, which this file only passes on.
\<close>

record 'd vTensor =
  v_sizes :: "int list"
  v_scalar_type :: 'd
  v_extents :: uvec3
  v_image :: nat

text \<open>
  \<open>Tensor\<close>: a handle to a host tensor or to a device tensor (\<open>convert\<close> wraps and
  unwraps the latter).
\<close>

datatype 'd Tensor = Cpu "int list" 'd | Vulkan "'d vTensor"

fun is_vulkan :: "'d Tensor \<Rightarrow> bool" where
  "is_vulkan (Cpu s d) = False"
| "is_vulkan (Vulkan v) = True"

fun sizes :: "'d Tensor \<Rightarrow> int list" where
  "sizes (Cpu s d) = s"
| "sizes (Vulkan v) = v_sizes v"

fun scalar_type :: "'d Tensor \<Rightarrow> 'd" where
  "scalar_type (Cpu s d) = d"
| "scalar_type (Vulkan v) = v_scalar_type v"

text \<open>\<open>self.dim()\<close> and \<open>self.size(dim)\<close>; the latter is only called with \<open>0 \<le> dim \<le> 2\<close>
  on a tensor of rank 3.\<close>

definition tensor_dim :: "'d Tensor \<Rightarrow> int" where
  "tensor_dim t = int (length (sizes t))"

definition tensor_size :: "'d Tensor \<Rightarrow> int \<Rightarrow> int" where
  "tensor_size t d = sizes t ! nat d"

text \<open>The \<open>Block\<close> struct each plan declares: \<open>uvec3 size; uint32_t index;\<close>.\<close>

record Block =
  block_size :: uvec3
  block_index :: "32 word"

datatype MemoryAccessType = READ | WRITE

datatype PipelineStage = COMPUTE

datatype ShaderInfo = VK_KERNEL string

text \<open>
  The arguments of one \<open>submit_compute_job\<close> call, in the order of the call. The fence
  is \<open>VK_NULL_HANDLE\<close> (\<open>None\<close>). Each image argument is the texture's handle with the
  stage and the access it is requested for; \<open>v_input.image(pipeline_barrier, stage)\<close>
  names no access and is the read binding of the spec. The barrier passed along is the
  empty one the plan has just created, recorded in the log by its own event.
\<close>

record Job =
  shader :: ShaderInfo
  global_work_group_size :: uvec3
  local_work_group_size :: uvec3
  fence :: "nat option"
  arguments :: "(nat \<times> PipelineStage \<times> MemoryAccessType) list"
  params_buffer :: Block

text \<open>
  The log of what a call does against the API: a host tensor copied to the device
  (\<open>input_arg.vulkan()\<close>), a texture allocated (the \<open>vTensor\<close> constructor), a uniform
  buffer created (\<open>api::UniformParamsBuffer\<close>), a barrier opened
  (\<open>api::PipelineBarrier\<close>) and a job submitted.
\<close>

datatype 'd Event =
    Transfer "'d vTensor"
  | Allocate "'d vTensor"
  | Params Block
  | Barrier
  | Submit Job

type_synonym 'd Context = "'d Event list"

definition jobs :: "'d Context \<Rightarrow> Job list" where
  "jobs ctx = concat (map (\<lambda>e. case e of Submit j \<Rightarrow> [j] | _ \<Rightarrow> []) ctx)"

subsection \<open>Collaborators declared outside this file\<close>

text \<open>
  The texture allocator's rule from sizes to extents (\<open>vTensor::extents()\<close>) and
  \<open>adaptive_work_group_size\<close> are defined elsewhere in the backend. Select.cpp uses
  them as black boxes, and so does the embedding: they are parameters.
\<close>

record Api =
  image_extents :: "int list \<Rightarrow> uvec3"
  adaptive_work_group_size :: "uvec3 \<Rightarrow> uvec3"

text \<open>
  Modelled from the spec: \<open>api::utils::div_up\<close> is declared in a header that is not
  part of this file. The spec, and the comment at both call sites, give
  \<open>div_up(c, 4u)\<close> as \<open>ceil(c/4)\<close>: the quotient rounded up.
\<close>

definition div_up :: "32 word \<Rightarrow> 32 word \<Rightarrow> 32 word" where
  "div_up numerator denominator =
     word_of_nat ((unat numerator + unat denominator - 1) div unat denominator)"

text \<open>
  Modelled from the spec: the \<open>vTensor\<close> constructor allocates a new texture for the
  given sizes and element type. The texture is distinct from every earlier one: its
  handle is the position of the allocation in the log.
\<close>

definition new_vTensor ::
  "Api \<Rightarrow> int list \<Rightarrow> 'd \<Rightarrow> 'd Context \<Rightarrow> 'd vTensor \<times> 'd Context" where
  "new_vTensor api s d ctx =
     (let v = \<lparr>v_sizes = s, v_scalar_type = d, v_extents = image_extents api s,
               v_image = length ctx\<rparr>
      in (v, ctx @ [Allocate v]))"

text \<open>
  Modelled from the spec: \<open>input_arg.is_vulkan() ? input_arg : input_arg.vulkan()\<close>
  followed by \<open>convert(input)\<close>. A device tensor is used as it is; a host tensor is
  copied into a new texture of the same sizes and element type.
\<close>

fun to_device :: "Api \<Rightarrow> 'd Tensor \<Rightarrow> 'd Context \<Rightarrow> 'd vTensor \<times> 'd Context" where
  "to_device api (Vulkan v) ctx = (v, ctx)"
| "to_device api (Cpu s d) ctx =
     (let v = \<lparr>v_sizes = s, v_scalar_type = d, v_extents = image_extents api s,
               v_image = length ctx\<rparr>
      in (v, ctx @ [Transfer v]))"

subsection \<open>The three plans\<close>

definition select_depth ::
  "Api \<Rightarrow> 'd Tensor \<Rightarrow> 32 word \<Rightarrow> 'd Context \<Rightarrow> 'd Tensor \<times> 'd Context" where
  "select_depth api input_arg index ctx =
     (let (v_input, ctx1) = to_device api input_arg ctx;
          v_input_sizes = v_sizes v_input;
          (v_output, ctx2) =
            new_vTensor api [v_input_sizes ! 1, v_input_sizes ! 2] (scalar_type input_arg) ctx1;
          block = \<lparr>block_size = v_extents v_output, block_index = index\<rparr>;
          ctx3 = ctx2 @ [Params block];
          ctx4 = ctx3 @ [Barrier];
          ctx5 = ctx4 @ [Submit
            \<lparr>shader = VK_KERNEL ''select_depth'',
             global_work_group_size = v_extents v_output,
             local_work_group_size = adaptive_work_group_size api (v_extents v_output),
             fence = None,
             arguments = [(v_image v_output, COMPUTE, WRITE), (v_image v_input, COMPUTE, READ)],
             params_buffer = block\<rparr>]
      in (Vulkan v_output, ctx5))"

definition select_height ::
  "Api \<Rightarrow> 'd Tensor \<Rightarrow> 32 word \<Rightarrow> 'd Context \<Rightarrow> 'd Tensor \<times> 'd Context" where
  "select_height api input_arg index ctx =
     (let (v_input, ctx1) = to_device api input_arg ctx;
          v_input_sizes = v_sizes v_input;
          (v_output, ctx2) =
            new_vTensor api [v_input_sizes ! 0, v_input_sizes ! 2] (scalar_type input_arg) ctx1;
          block = \<lparr>block_size = v_extents v_output, block_index = index\<rparr>;
          w = data (v_extents v_output) 0;
          c = data (v_extents v_output) 1;
          global_workgroup_size = Uvec3 w (div_up c 4) 1;
          ctx3 = ctx2 @ [Params block];
          ctx4 = ctx3 @ [Barrier];
          ctx5 = ctx4 @ [Submit
            \<lparr>shader = VK_KERNEL ''select_height'',
             global_work_group_size = global_workgroup_size,
             local_work_group_size = adaptive_work_group_size api global_workgroup_size,
             fence = None,
             arguments = [(v_image v_output, COMPUTE, WRITE), (v_image v_input, COMPUTE, READ)],
             params_buffer = block\<rparr>]
      in (Vulkan v_output, ctx5))"

definition select_width ::
  "Api \<Rightarrow> 'd Tensor \<Rightarrow> 32 word \<Rightarrow> 'd Context \<Rightarrow> 'd Tensor \<times> 'd Context" where
  "select_width api input_arg index ctx =
     (let (v_input, ctx1) = to_device api input_arg ctx;
          v_input_sizes = v_sizes v_input;
          (v_output, ctx2) =
            new_vTensor api [v_input_sizes ! 0, v_input_sizes ! 1] (scalar_type input_arg) ctx1;
          block = \<lparr>block_size = v_extents v_output, block_index = index\<rparr>;
          h = data (v_extents v_output) 0;
          c = data (v_extents v_output) 1;
          global_workgroup_size = Uvec3 h (div_up c 4) 1;
          ctx3 = ctx2 @ [Params block];
          ctx4 = ctx3 @ [Barrier];
          ctx5 = ctx4 @ [Submit
            \<lparr>shader = VK_KERNEL ''select_width'',
             global_work_group_size = global_workgroup_size,
             local_work_group_size = adaptive_work_group_size api global_workgroup_size,
             fence = None,
             arguments = [(v_image v_output, COMPUTE, WRITE), (v_image v_input, COMPUTE, READ)],
             params_buffer = block\<rparr>]
      in (Vulkan v_output, ctx5))"

subsection \<open>The driver\<close>

text \<open>
  \<open>TORCH_CHECK\<close> raises \<open>c10::Error\<close> (the spec's InvalidArgument) and
  \<open>TORCH_CHECK_INDEX\<close> raises \<open>c10::IndexError\<close> (the spec's IndexOutOfRange). Both
  carry the message arguments of the macro, kept here as they are passed.
\<close>

datatype Msg = Str string | Int64 int | IntArrayRef "int list"

datatype error = Error "Msg list" | IndexError "Msg list"

definition select ::
  "Api \<Rightarrow> 'd Tensor \<Rightarrow> int \<Rightarrow> int \<Rightarrow> 'd Context \<Rightarrow> (error + 'd Tensor) \<times> 'd Context" where
  "select api self dim' index ctx =
     (if \<not> tensor_dim self = 3 then
        (Inl (Error [Str ''Vulkan select only supports 3d tensors!'']), ctx)
      else if \<not> (0 \<le> dim' \<and> dim' \<le> 2) then
        (Inl (Error [Str ''Vulkan select only supports one of the dim (0, 1, 2)'']), ctx)
      else
        let size = tensor_size self dim' in
        if index < - size \<or> index \<ge> size then
          (Inl (IndexError
             [Str ''select(): index '', Int64 index,
              Str '' out of range for tensor of size '', IntArrayRef (sizes self),
              Str '' at dimension '', Int64 dim']), ctx)
        else
          let index' = (if index < 0 then index + size else index) in
          if dim' = 0 then
            (case select_depth api self (word_of_int index') ctx of
               (out, ctx') \<Rightarrow> (Inr out, ctx'))
          else if dim' = 1 then
            (case select_height api self (word_of_int index') ctx of
               (out, ctx') \<Rightarrow> (Inr out, ctx'))
          else
            (case select_width api self (word_of_int index') ctx of
               (out, ctx') \<Rightarrow> (Inr out, ctx')))"

subsection \<open>Sample inputs\<close>

text \<open>
  Concrete collaborators and inputs on which the properties below are exercised: an
  allocator that gives a shape \<open>(h, w)\<close> the extents \<open>(w, h, 1)\<close> and a shape
  \<open>(c, h, w)\<close> the extents \<open>(w, h, ceil(c/4))\<close>, and the device tensor of shape
  \<open>(2, 3, 4)\<close> of the spec's cross-axis scenario, allocated as texture 0.
\<close>

abbreviation sample_api :: Api where
  "sample_api \<equiv>
     \<lparr>image_extents = (\<lambda>s. case s of
          [h, w] \<Rightarrow> Uvec3 (word_of_int w) (word_of_int h) 1
        | [c, h, w] \<Rightarrow> Uvec3 (word_of_int w) (word_of_int h) (div_up (word_of_int c) 4)
        | _ \<Rightarrow> Uvec3 1 1 1),
      adaptive_work_group_size = (\<lambda>g. Uvec3 4 4 4)\<rparr>"

abbreviation sample_input :: "string Tensor" where
  "sample_input \<equiv>
     Vulkan \<lparr>v_sizes = [2, 3, 4], v_scalar_type = ''Float'',
             v_extents = Uvec3 4 3 1, v_image = 0\<rparr>"

abbreviation sample_context :: "string Context" where
  "sample_context \<equiv>
     [Allocate \<lparr>v_sizes = [2, 3, 4], v_scalar_type = ''Float'',
                v_extents = Uvec3 4 3 1, v_image = 0\<rparr>]"

section \<open>Properties\<close>

subsection \<open>Auxiliary facts\<close>

lemma jobs_simps:
  "jobs [] = []"
  "jobs (ctx @ ctx') = jobs ctx @ jobs ctx'"
  "jobs (Submit j # ctx) = j # jobs ctx"
  "jobs (Transfer v # ctx) = jobs ctx"
  "jobs (Allocate v # ctx) = jobs ctx"
  "jobs (Params b # ctx) = jobs ctx"
  "jobs (Barrier # ctx) = jobs ctx"
  by (simp_all add: jobs_def)

text \<open>Rounding up a quotient by 4, on naturals and as a ceiling of reals.\<close>

lemma ceiling_quarter: "int ((n + 3) div 4) = \<lceil>real n / 4\<rceil>"
proof -
  have "\<lceil>real n / 4\<rceil> = \<lceil>real_of_int (int n) / real_of_int 4\<rceil>" by simp
  also have "\<dots> = - ((- int n) div 4)" by (simp only: ceiling_divide_eq_div)
  also have "\<dots> = int ((n + 3) div 4)" by (simp add: zdiv_int)
  finally show ?thesis by simp
qed

lemma div_up_4: "unat (div_up c 4) = (unat c + 3) div 4"
proof -
  have "unat c < 2 ^ 32" using unsigned_less [of c] by simp
  then have "(unat c + 3) div 4 < 2 ^ 32" by simp
  then show ?thesis
    by (simp add: div_up_def unat_of_nat)
qed

lemma div_up_4_ceiling: "int (unat (div_up c 4)) = \<lceil>real (unat c) / 4\<rceil>"
  by (simp only: div_up_4 ceiling_quarter)

text \<open>Making the input device-resident submits no job and keeps the sizes.\<close>

lemma to_device_cases:
  "\<exists>v evs. to_device api t ctx = (v, ctx @ evs) \<and> jobs evs = [] \<and>
     v_sizes v = sizes t \<and> (\<forall>v'. t = Vulkan v' \<longrightarrow> v = v' \<and> evs = []) \<and>
     (\<not> is_vulkan t \<longrightarrow> v_image v = length ctx)"
  by (cases t) (simp_all add: Let_def jobs_simps)

text \<open>What a valid call of the driver reduces to.\<close>

lemma select_valid:
  assumes "tensor_dim t = 3" and "0 \<le> d" and "d \<le> 2"
    and "- tensor_size t d \<le> i" and "i < tensor_size t d"
  shows "select api t d i ctx =
    (let n = (if i < 0 then i + tensor_size t d else i);
         r = (if d = 0 then select_depth api t (word_of_int n) ctx
              else if d = 1 then select_height api t (word_of_int n) ctx
              else select_width api t (word_of_int n) ctx)
     in (Inr (fst r), snd r))"
  using assms by (simp add: select_def Let_def split: prod.splits)

text \<open>Each plan in closed form, once the input is on the device.\<close>

lemma select_depth_run:
  assumes "to_device api t ctx = (v_in, ctx1)"
  shows "select_depth api t i ctx =
    (let v = \<lparr>v_sizes = [v_sizes v_in ! 1, v_sizes v_in ! 2], v_scalar_type = scalar_type t,
               v_extents = image_extents api [v_sizes v_in ! 1, v_sizes v_in ! 2],
               v_image = length ctx1\<rparr>;
         b = \<lparr>block_size = v_extents v, block_index = i\<rparr>
     in (Vulkan v, ctx1 @ [Allocate v, Params b, Barrier, Submit
          \<lparr>shader = VK_KERNEL ''select_depth'',
           global_work_group_size = v_extents v,
           local_work_group_size = adaptive_work_group_size api (v_extents v),
           fence = None,
           arguments = [(v_image v, COMPUTE, WRITE), (v_image v_in, COMPUTE, READ)],
           params_buffer = b\<rparr>]))"
  using assms by (simp add: select_depth_def new_vTensor_def Let_def)

lemma select_height_run:
  assumes "to_device api t ctx = (v_in, ctx1)"
  shows "select_height api t i ctx =
    (let v = \<lparr>v_sizes = [v_sizes v_in ! 0, v_sizes v_in ! 2], v_scalar_type = scalar_type t,
               v_extents = image_extents api [v_sizes v_in ! 0, v_sizes v_in ! 2],
               v_image = length ctx1\<rparr>;
         b = \<lparr>block_size = v_extents v, block_index = i\<rparr>;
         g = Uvec3 (data (v_extents v) 0) (div_up (data (v_extents v) 1) 4) 1
     in (Vulkan v, ctx1 @ [Allocate v, Params b, Barrier, Submit
          \<lparr>shader = VK_KERNEL ''select_height'',
           global_work_group_size = g,
           local_work_group_size = adaptive_work_group_size api g,
           fence = None,
           arguments = [(v_image v, COMPUTE, WRITE), (v_image v_in, COMPUTE, READ)],
           params_buffer = b\<rparr>]))"
  using assms by (simp add: select_height_def new_vTensor_def Let_def)

lemma select_width_run:
  assumes "to_device api t ctx = (v_in, ctx1)"
  shows "select_width api t i ctx =
    (let v = \<lparr>v_sizes = [v_sizes v_in ! 0, v_sizes v_in ! 1], v_scalar_type = scalar_type t,
               v_extents = image_extents api [v_sizes v_in ! 0, v_sizes v_in ! 1],
               v_image = length ctx1\<rparr>;
         b = \<lparr>block_size = v_extents v, block_index = i\<rparr>;
         g = Uvec3 (data (v_extents v) 0) (div_up (data (v_extents v) 1) 4) 1
     in (Vulkan v, ctx1 @ [Allocate v, Params b, Barrier, Submit
          \<lparr>shader = VK_KERNEL ''select_width'',
           global_work_group_size = g,
           local_work_group_size = adaptive_work_group_size api g,
           fence = None,
           arguments = [(v_image v, COMPUTE, WRITE), (v_image v_in, COMPUTE, READ)],
           params_buffer = b\<rparr>]))"
  using assms by (simp add: select_width_def new_vTensor_def Let_def)

text \<open>The same fact in the form the simplifier gives to word conversions.\<close>

lemma div_up_4_ceiling_uint: "uint (div_up c 4) = \<lceil>(unsigned c :: real) / 4\<rceil>"
  using div_up_4_ceiling [of c] by simp

text \<open>
  What every plan leaves behind: the log grows by events of the call, the output
  texture is the one allocated by the call, and the one job submitted binds the output
  for writing and the input for reading.
\<close>

lemma plan_frame:
  assumes "to_device api t ctx = (v_in, ctx @ evs0)" and "jobs evs0 = []"
    and "r = select_depth api t w ctx \<or> r = select_height api t w ctx
           \<or> r = select_width api t w ctx"
  shows "\<exists>v evs j. r = (Vulkan v, ctx @ evs)
       \<and> v_image v = length (ctx @ evs0) \<and> Allocate v \<in> set evs
       \<and> v_scalar_type v = scalar_type t
       \<and> jobs evs = [j]
       \<and> arguments j = [(v_image v, COMPUTE, WRITE), (v_image v_in, COMPUTE, READ)]"
  using assms(3)
  by (elim disjE)
     (simp_all add: select_depth_run [OF assms(1)] select_height_run [OF assms(1)]
        select_width_run [OF assms(1)] Let_def jobs_simps assms(2))

text \<open>The definitions that evaluate a call on concrete inputs.\<close>

lemmas run_defs = select_def select_depth_def select_height_def select_width_def
  new_vTensor_def tensor_dim_def tensor_size_def Let_def jobs_def div_up_def

subsection \<open>The driver's checks\<close>

text \<open>
  Claim C5. A tensor whose rank is not 3, or an axis outside \<open>{0, 1, 2}\<close>, makes \<open>select\<close>
  fail with the error of \<open>TORCH_CHECK\<close> (\<open>c10::Error\<close>, the spec's InvalidArgument), and
  the log of API interactions is returned as it was: no texture, parameter block, barrier
  or submission has been created.
\<close>

theorem select_rejects_rank_and_axis:
  "tensor_dim t \<noteq> 3 \<or> \<not> (0 \<le> d \<and> d \<le> 2) \<Longrightarrow>
     \<exists>m. select api t d i ctx = (Inl (Error m), ctx)"
  by (auto simp: select_def)

theorem select_rejects_rank_and_axis_witness:
  "tensor_dim (Cpu [3, 4] ''Float'') = 2
   \<and> (\<exists>m. select sample_api (Cpu [3, 4] ''Float'') 0 0 [] = (Inl (Error m), []))
   \<and> tensor_dim (Cpu [1, 2, 3, 4] ''Float'') = 4
   \<and> (\<exists>m. select sample_api (Cpu [1, 2, 3, 4] ''Float'') 0 0 [] = (Inl (Error m), []))
   \<and> tensor_dim sample_input = 3
   \<and> (\<exists>m. select sample_api sample_input 3 0 sample_context = (Inl (Error m), sample_context))"
  using select_rejects_rank_and_axis [of "Cpu [3, 4] ''Float''" 0 sample_api 0 "[]"]
    select_rejects_rank_and_axis [of "Cpu [1, 2, 3, 4] ''Float''" 0 sample_api 0 "[]"]
    select_rejects_rank_and_axis [of sample_input 3 sample_api 0 sample_context]
  by (simp add: tensor_dim_def)

text \<open>
  Claim C3. On a rank-3 tensor and an axis in \<open>{0, 1, 2}\<close>, \<open>select\<close> fails with the error
  of \<open>TORCH_CHECK_INDEX\<close> (\<open>c10::IndexError\<close>, the spec's IndexOutOfRange) exactly when
  \<open>index < -size\<close> or \<open>index \<ge> size\<close>, where \<open>size\<close> is the extent along the axis. The
  message carries the index as passed, the full shape and the axis. In particular
  \<open>index = size\<close> and \<open>index = -size - 1\<close> fail: nothing is clamped.
\<close>

theorem select_index_out_of_range:
  assumes "tensor_dim t = 3" and "0 \<le> d" and "d \<le> 2"
  shows "((\<exists>m. fst (select api t d i ctx) = Inl (IndexError m)) \<longleftrightarrow>
            (i < - tensor_size t d \<or> tensor_size t d \<le> i))
       \<and> (i < - tensor_size t d \<or> tensor_size t d \<le> i \<longrightarrow>
            select api t d i ctx =
              (Inl (IndexError
                 [Str ''select(): index '', Int64 i,
                  Str '' out of range for tensor of size '', IntArrayRef (sizes t),
                  Str '' at dimension '', Int64 d]), ctx))
       \<and> (\<exists>m. select api t d (tensor_size t d) ctx = (Inl (IndexError m), ctx))
       \<and> (\<exists>m. select api t d (- tensor_size t d - 1) ctx = (Inl (IndexError m), ctx))"
proof -
  have out: "select api t d k ctx =
      (Inl (IndexError
         [Str ''select(): index '', Int64 k,
          Str '' out of range for tensor of size '', IntArrayRef (sizes t),
          Str '' at dimension '', Int64 d]), ctx)"
    if "k < - tensor_size t d \<or> tensor_size t d \<le> k" for k
    using assms that by (auto simp: select_def Let_def)
  have inr: "\<exists>r. fst (select api t d i ctx) = Inr r"
    if "- tensor_size t d \<le> i" and "i < tensor_size t d"
    using assms that by (simp add: select_valid Let_def)
  have iff: "(\<exists>m. fst (select api t d i ctx) = Inl (IndexError m)) \<longleftrightarrow>
            (i < - tensor_size t d \<or> tensor_size t d \<le> i)"
  proof
    assume "\<exists>m. fst (select api t d i ctx) = Inl (IndexError m)"
    then show "i < - tensor_size t d \<or> tensor_size t d \<le> i"
      using inr by fastforce
  next
    assume "i < - tensor_size t d \<or> tensor_size t d \<le> i"
    then show "\<exists>m. fst (select api t d i ctx) = Inl (IndexError m)"
      using out [of i] by simp
  qed
  have hi: "\<exists>m. select api t d (tensor_size t d) ctx = (Inl (IndexError m), ctx)"
    using out [of "tensor_size t d"] by simp
  have lo: "\<exists>m. select api t d (- tensor_size t d - 1) ctx = (Inl (IndexError m), ctx)"
    using out [of "- tensor_size t d - 1"] by simp
  from iff out [of i] hi lo show ?thesis by blast
qed

theorem select_index_out_of_range_witness:
  "tensor_dim sample_input = 3 \<and> (0::int) \<le> 1 \<and> (1::int) \<le> 2
   \<and> tensor_size sample_input 1 = 3
   \<and> select sample_api sample_input 1 3 sample_context =
        (Inl (IndexError
           [Str ''select(): index '', Int64 3,
            Str '' out of range for tensor of size '', IntArrayRef [2, 3, 4],
            Str '' at dimension '', Int64 1]), sample_context)
   \<and> (\<exists>m. select sample_api sample_input 1 (- 4) sample_context =
        (Inl (IndexError m), sample_context))"
proof -
  have h: "tensor_dim sample_input = 3" "(0::int) \<le> 1" "(1::int) \<le> 2"
    by (simp_all add: tensor_dim_def)
  have s: "tensor_size sample_input 1 = 3" by (simp add: tensor_size_def)
  show ?thesis
    using h s select_index_out_of_range [OF h, where i = 3 and api = sample_api and ctx = sample_context]
      select_index_out_of_range [OF h, where i = "- 4" and api = sample_api and ctx = sample_context]
    by simp
qed

text \<open>
  Claim C4. On a rank-3 tensor, an axis in \<open>{0, 1, 2}\<close> and an index in \<open>[-size, 0)\<close>,
  \<open>select\<close> with \<open>index\<close> and \<open>select\<close> with \<open>index + size\<close> give the same result.
  The driver rewrites the negative index to \<open>n = index + size\<close>, which lies in
  \<open>[0, size)\<close>, before it dispatches: both calls return what the plan of the axis
  returns for \<open>n\<close>, and the one job they submit runs that plan's shader with \<open>n\<close> in
  its parameter block.
\<close>

theorem select_negative_index:
  assumes "tensor_dim t = 3" and "0 \<le> d" and "d \<le> 2"
    and "- tensor_size t d \<le> i" and "i < 0"
  shows "select api t d i ctx = select api t d (i + tensor_size t d) ctx
       \<and> (\<exists>n out ctx' j.
             n = i + tensor_size t d \<and> 0 \<le> n \<and> n < tensor_size t d
           \<and> select api t d i ctx = (Inr out, ctx')
           \<and> select api t d n ctx = (Inr out, ctx')
           \<and> (out, ctx') =
               (if d = 0 then select_depth api t (word_of_int n) ctx
                else if d = 1 then select_height api t (word_of_int n) ctx
                else select_width api t (word_of_int n) ctx)
           \<and> jobs ctx' = jobs ctx @ [j]
           \<and> shader j = VK_KERNEL (if d = 0 then ''select_depth''
                                    else if d = 1 then ''select_height'' else ''select_width'')
           \<and> block_index (params_buffer j) = word_of_int n)"
proof -
  define n where "n = i + tensor_size t d"
  have range: "0 \<le> n" "n < tensor_size t d" "\<not> n < 0" "- tensor_size t d \<le> n"
    using assms(4,5) by (auto simp: n_def)
  have lt: "i < tensor_size t d" using assms(4,5) by linarith
  define r where "r = (if d = 0 then select_depth api t (word_of_int n) ctx
              else if d = 1 then select_height api t (word_of_int n) ctx
              else select_width api t (word_of_int n) ctx)"
  have neg: "select api t d i ctx = (Inr (fst r), snd r)"
    using assms lt by (simp add: select_valid Let_def r_def n_def)
  have pos: "select api t d n ctx = (Inr (fst r), snd r)"
    using assms(1-3) range by (simp add: select_valid [where i = n] Let_def r_def)
  obtain v_in evs where td: "to_device api t ctx = (v_in, ctx @ evs)" and nj: "jobs evs = []"
    using to_device_cases [of api t ctx] by blast
  from assms(2,3) consider "d = 0" | "d = 1" | "d = 2" by linarith
  then have "\<exists>j. jobs (snd r) = jobs ctx @ [j]
         \<and> shader j = VK_KERNEL (if d = 0 then ''select_depth''
                                  else if d = 1 then ''select_height'' else ''select_width'')
         \<and> block_index (params_buffer j) = word_of_int n"
  proof cases
    case 1
    then show ?thesis
      using nj by (simp add: r_def select_depth_run [OF td] Let_def jobs_simps)
  next
    case 2
    then show ?thesis
      using nj by (simp add: r_def select_height_run [OF td] Let_def jobs_simps)
  next
    case 3
    then show ?thesis
      using nj by (simp add: r_def select_width_run [OF td] Let_def jobs_simps)
  qed
  then obtain j where j: "jobs (snd r) = jobs ctx @ [j]"
    "shader j = VK_KERNEL (if d = 0 then ''select_depth''
                           else if d = 1 then ''select_height'' else ''select_width'')"
    "block_index (params_buffer j) = word_of_int n"
    by blast
  have same: "select api t d i ctx = select api t d (i + tensor_size t d) ctx"
    using neg pos by (simp add: n_def)
  have plan: "(fst r, snd r) =
               (if d = 0 then select_depth api t (word_of_int n) ctx
                else if d = 1 then select_height api t (word_of_int n) ctx
                else select_width api t (word_of_int n) ctx)"
    by (simp add: r_def)
  have "\<exists>n out ctx' j.
             n = i + tensor_size t d \<and> 0 \<le> n \<and> n < tensor_size t d
           \<and> select api t d i ctx = (Inr out, ctx')
           \<and> select api t d n ctx = (Inr out, ctx')
           \<and> (out, ctx') =
               (if d = 0 then select_depth api t (word_of_int n) ctx
                else if d = 1 then select_height api t (word_of_int n) ctx
                else select_width api t (word_of_int n) ctx)
           \<and> jobs ctx' = jobs ctx @ [j]
           \<and> shader j = VK_KERNEL (if d = 0 then ''select_depth''
                                    else if d = 1 then ''select_height'' else ''select_width'')
           \<and> block_index (params_buffer j) = word_of_int n"
    using n_def range(1,2) neg pos plan j
    by (intro exI [of _ n] exI [of _ "fst r"] exI [of _ "snd r"] exI [of _ j] conjI)
  with same show ?thesis by (rule conjI)
qed

theorem select_negative_index_witness:
  "tensor_dim sample_input = 3 \<and> (0::int) \<le> 2 \<and> (2::int) \<le> 2
   \<and> - tensor_size sample_input 2 \<le> - 1 \<and> (- 1::int) < 0
   \<and> select sample_api sample_input 2 (- 1) sample_context =
       select sample_api sample_input 2 3 sample_context
   \<and> (\<exists>out ctx' j.
         select sample_api sample_input 2 (- 1) sample_context = (Inr out, ctx')
       \<and> select sample_api sample_input 2 3 sample_context = (Inr out, ctx')
       \<and> (out, ctx') = select_width sample_api sample_input 3 sample_context
       \<and> jobs ctx' = jobs sample_context @ [j]
       \<and> shader j = VK_KERNEL ''select_width''
       \<and> block_index (params_buffer j) = 3)"
proof -
  have h: "tensor_dim sample_input = 3" "(0::int) \<le> 2" "(2::int) \<le> 2"
    "- tensor_size sample_input 2 \<le> - 1" "(- 1::int) < 0"
    by (simp_all add: tensor_dim_def tensor_size_def)
  have s: "- 1 + tensor_size sample_input 2 = 3" by (simp add: tensor_size_def)
  note r = select_negative_index [OF h, where api = sample_api and ctx = sample_context]
  from r have e: "select sample_api sample_input 2 (- 1) sample_context =
       select sample_api sample_input 2 3 sample_context"
    unfolding s by (rule conjunct1)
  from r obtain out ctx' j where
    "select sample_api sample_input 2 (- 1) sample_context = (Inr out, ctx')"
    "select sample_api sample_input 2 3 sample_context = (Inr out, ctx')"
    "(out, ctx') = select_width sample_api sample_input 3 sample_context"
    "jobs ctx' = jobs sample_context @ [j]"
    "shader j = VK_KERNEL ''select_width''"
    "block_index (params_buffer j) = 3"
    unfolding s by auto
  then have x: "\<exists>out ctx' j.
         select sample_api sample_input 2 (- 1) sample_context = (Inr out, ctx')
       \<and> select sample_api sample_input 2 3 sample_context = (Inr out, ctx')
       \<and> (out, ctx') = select_width sample_api sample_input 3 sample_context
       \<and> jobs ctx' = jobs sample_context @ [j]
       \<and> shader j = VK_KERNEL ''select_width''
       \<and> block_index (params_buffer j) = 3"
    by (intro exI [of _ out] exI [of _ ctx'] exI [of _ j] conjI)
  from h e x show ?thesis by (intro conjI)
qed

subsection \<open>What a valid call returns and where it is routed\<close>

text \<open>
  Claim C2. On a tensor of shape \<open>(C, H, W)\<close>, an axis in \<open>{0, 1, 2}\<close> and an index in
  \<open>[-size, size)\<close>, \<open>select\<close> returns a tensor whose shape is the input's with the selected
  dimension removed (axis 0 gives \<open>(H, W)\<close>, axis 1 gives \<open>(C, W)\<close>, axis 2 gives
  \<open>(C, H)\<close>) and whose element type is the input's.
\<close>

theorem select_output_shape:
  assumes "sizes t = [C, H, W]" and "0 \<le> d" and "d \<le> 2"
    and "- tensor_size t d \<le> i" and "i < tensor_size t d"
  shows "\<exists>out ctx'. select api t d i ctx = (Inr out, ctx')
       \<and> sizes out = (if d = 0 then [H, W] else if d = 1 then [C, W] else [C, H])
       \<and> sizes out = take (nat d) (sizes t) @ drop (Suc (nat d)) (sizes t)
       \<and> scalar_type out = scalar_type t"
proof -
  obtain v_in ctx1 where td: "to_device api t ctx = (v_in, ctx1)" and vs: "v_sizes v_in = sizes t"
    using to_device_cases [of api t ctx] by blast
  have rank: "tensor_dim t = 3" using assms(1) by (simp add: tensor_dim_def)
  from assms(2,3) consider "d = 0" | "d = 1" | "d = 2" by linarith
  then show ?thesis
  proof cases
    case 1
    then show ?thesis
      using assms rank vs
      by (simp add: select_valid select_depth_run [OF td] Let_def)
  next
    case 2
    then show ?thesis
      using assms rank vs
      by (simp add: select_valid select_height_run [OF td] Let_def)
  next
    case 3
    then show ?thesis
      using assms rank vs
      by (simp add: select_valid select_width_run [OF td] Let_def)
  qed
qed

theorem select_output_shape_witness:
  "sizes sample_input = [2, 3, 4] \<and> (0::int) \<le> 1 \<and> (1::int) \<le> 2
   \<and> - tensor_size sample_input 1 \<le> - 3 \<and> - 3 < tensor_size sample_input 1
   \<and> (\<exists>out ctx'. select sample_api sample_input 1 (- 3) sample_context = (Inr out, ctx')
        \<and> sizes out = [2, 4] \<and> scalar_type out = ''Float'')"
proof -
  have h: "sizes sample_input = [2, 3, 4]" "(0::int) \<le> 1" "(1::int) \<le> 2"
    "- tensor_size sample_input 1 \<le> - 3" "- 3 < tensor_size sample_input 1"
    by (simp_all add: tensor_size_def)
  note r = select_output_shape [OF h, where api = sample_api and ctx = sample_context]
  from r obtain out ctx' where
    "select sample_api sample_input 1 (- 3) sample_context = (Inr out, ctx')"
    "sizes out = [2, 4]" "scalar_type out = ''Float''"
    by auto
  then have "\<exists>out ctx'. select sample_api sample_input 1 (- 3) sample_context = (Inr out, ctx')
        \<and> sizes out = [2, 4] \<and> scalar_type out = ''Float''"
    by blast
  with h show ?thesis by (intro conjI)
qed

text \<open>
  Claim C6. A call that passes the checks goes to \<open>select_depth\<close> for axis 0, to
  \<open>select_height\<close> for axis 1 and to \<open>select_width\<close> for axis 2, with the normalized index
  \<open>n\<close> (\<open>index + size\<close> for a negative index), which lies in \<open>[0, size)\<close>. The one job
  the call submits runs the shader of that name and carries \<open>n\<close> in its parameter block.
\<close>

theorem select_routes_by_axis:
  assumes "tensor_dim t = 3" and "0 \<le> d" and "d \<le> 2"
    and "- tensor_size t d \<le> i" and "i < tensor_size t d"
  shows "\<exists>n out ctx' j.
           n = (if i < 0 then i + tensor_size t d else i) \<and> 0 \<le> n \<and> n < tensor_size t d
         \<and> select api t d i ctx = (Inr out, ctx')
         \<and> (out, ctx') =
             (if d = 0 then select_depth api t (word_of_int n) ctx
              else if d = 1 then select_height api t (word_of_int n) ctx
              else select_width api t (word_of_int n) ctx)
         \<and> jobs ctx' = jobs ctx @ [j]
         \<and> shader j = VK_KERNEL (if d = 0 then ''select_depth''
                                  else if d = 1 then ''select_height'' else ''select_width'')
         \<and> block_index (params_buffer j) = word_of_int n"
proof -
  obtain v_in evs where td: "to_device api t ctx = (v_in, ctx @ evs)" and nj: "jobs evs = []"
    using to_device_cases [of api t ctx] by blast
  from assms(2,3) consider "d = 0" | "d = 1" | "d = 2" by linarith
  then show ?thesis
  proof cases
    case 1
    then show ?thesis
      using assms nj
      by (simp add: select_valid select_depth_run [OF td] Let_def jobs_simps)
  next
    case 2
    then show ?thesis
      using assms nj
      by (simp add: select_valid select_height_run [OF td] Let_def jobs_simps)
  next
    case 3
    then show ?thesis
      using assms nj
      by (simp add: select_valid select_width_run [OF td] Let_def jobs_simps)
  qed
qed

theorem select_routes_by_axis_witness:
  "tensor_dim sample_input = 3 \<and> (0::int) \<le> 2 \<and> (2::int) \<le> 2
   \<and> - tensor_size sample_input 2 \<le> - 1 \<and> - 1 < tensor_size sample_input 2
   \<and> (\<exists>out ctx' j.
         select sample_api sample_input 2 (- 1) sample_context = (Inr out, ctx')
       \<and> (out, ctx') = select_width sample_api sample_input 3 sample_context
       \<and> jobs ctx' = jobs sample_context @ [j]
       \<and> shader j = VK_KERNEL ''select_width''
       \<and> block_index (params_buffer j) = 3)"
proof -
  have h: "tensor_dim sample_input = 3" "(0::int) \<le> 2" "(2::int) \<le> 2"
    "- tensor_size sample_input 2 \<le> - 1" "- 1 < tensor_size sample_input 2"
    by (simp_all add: tensor_dim_def tensor_size_def)
  have s: "tensor_size sample_input 2 = 4" by (simp add: tensor_size_def)
  note r = select_routes_by_axis [OF h, where api = sample_api and ctx = sample_context]
  from r obtain out ctx' j where
    "select sample_api sample_input 2 (- 1) sample_context = (Inr out, ctx')"
    "(out, ctx') = select_width sample_api sample_input 3 sample_context"
    "jobs ctx' = jobs sample_context @ [j]"
    "shader j = VK_KERNEL ''select_width''"
    "block_index (params_buffer j) = 3"
    unfolding s by auto
  then have "\<exists>out ctx' j.
         select sample_api sample_input 2 (- 1) sample_context = (Inr out, ctx')
       \<and> (out, ctx') = select_width sample_api sample_input 3 sample_context
       \<and> jobs ctx' = jobs sample_context @ [j]
       \<and> shader j = VK_KERNEL ''select_width''
       \<and> block_index (params_buffer j) = 3"
    by blast
  with h show ?thesis by (intro conjI)
qed

text \<open>
  Claim C10. The index \<open>n\<close> handed to the plan lies in \<open>[0, size)\<close>. When the extent of
  the selected axis is at most \<open>2 ^ 32\<close>, converting \<open>n\<close> from the driver's signed 64-bit
  integer to the plan's unsigned 32-bit parameter keeps its value: the word the plan
  receives, and the one the shader finds in the parameter block, read back as \<open>n\<close>.
\<close>

theorem select_index_narrowing:
  assumes "tensor_dim t = 3" and "0 \<le> d" and "d \<le> 2"
    and "- tensor_size t d \<le> i" and "i < tensor_size t d"
    and "tensor_size t d \<le> 2 ^ 32"
  shows "\<exists>n w out ctx' j.
           n = (if i < 0 then i + tensor_size t d else i) \<and> 0 \<le> n \<and> n < tensor_size t d
         \<and> w = (word_of_int n :: 32 word) \<and> uint w = n
         \<and> select api t d i ctx = (Inr out, ctx')
         \<and> (out, ctx') =
             (if d = 0 then select_depth api t w ctx
              else if d = 1 then select_height api t w ctx
              else select_width api t w ctx)
         \<and> jobs ctx' = jobs ctx @ [j]
         \<and> uint (block_index (params_buffer j)) = n"
proof -
  define n where "n = (if i < 0 then i + tensor_size t d else i)"
  have range: "0 \<le> n" "n < tensor_size t d"
    using assms(4,5) by (auto simp: n_def)
  then have "n < 2 ^ 32" using assms(6) by linarith
  with range have keep: "uint (word_of_int n :: 32 word) = n"
    by (simp add: uint_word_of_int)
  obtain v_in evs where td: "to_device api t ctx = (v_in, ctx @ evs)" and nj: "jobs evs = []"
    using to_device_cases [of api t ctx] by blast
  from assms(2,3) consider "d = 0" | "d = 1" | "d = 2" by linarith
  then have "\<exists>out ctx' j. select api t d i ctx = (Inr out, ctx')
         \<and> (out, ctx') =
             (if d = 0 then select_depth api t (word_of_int n) ctx
              else if d = 1 then select_height api t (word_of_int n) ctx
              else select_width api t (word_of_int n) ctx)
         \<and> jobs ctx' = jobs ctx @ [j]
         \<and> block_index (params_buffer j) = word_of_int n"
  proof cases
    case 1
    then show ?thesis
      using assms(1-5) nj
      by (simp add: select_valid select_depth_run [OF td] Let_def jobs_simps n_def)
  next
    case 2
    then show ?thesis
      using assms(1-5) nj
      by (simp add: select_valid select_height_run [OF td] Let_def jobs_simps n_def)
  next
    case 3
    then show ?thesis
      using assms(1-5) nj
      by (simp add: select_valid select_width_run [OF td] Let_def jobs_simps n_def)
  qed
  then obtain out ctx' j where r:
    "select api t d i ctx = (Inr out, ctx')"
    "(out, ctx') =
       (if d = 0 then select_depth api t (word_of_int n) ctx
        else if d = 1 then select_height api t (word_of_int n) ctx
        else select_width api t (word_of_int n) ctx)"
    "jobs ctx' = jobs ctx @ [j]"
    "block_index (params_buffer j) = word_of_int n"
    by blast
  from r(4) keep have "uint (block_index (params_buffer j)) = n" by simp
  with r range keep show ?thesis
    unfolding n_def [symmetric] by blast
qed

theorem select_index_narrowing_witness:
  "tensor_dim sample_input = 3 \<and> (0::int) \<le> 0 \<and> (0::int) \<le> 2
   \<and> - tensor_size sample_input 0 \<le> - 1 \<and> - 1 < tensor_size sample_input 0
   \<and> tensor_size sample_input 0 \<le> 2 ^ 32
   \<and> (\<exists>out ctx' j.
         select sample_api sample_input 0 (- 1) sample_context = (Inr out, ctx')
       \<and> (out, ctx') = select_depth sample_api sample_input 1 sample_context
       \<and> jobs ctx' = jobs sample_context @ [j]
       \<and> uint (block_index (params_buffer j)) = 1)"
proof -
  have h: "tensor_dim sample_input = 3" "(0::int) \<le> 0" "(0::int) \<le> 2"
    "- tensor_size sample_input 0 \<le> - 1" "- 1 < tensor_size sample_input 0"
    "tensor_size sample_input 0 \<le> 2 ^ 32"
    by (simp_all add: tensor_dim_def tensor_size_def)
  have s: "tensor_size sample_input 0 = 2" by (simp add: tensor_size_def)
  note r = select_index_narrowing [OF h, where api = sample_api and ctx = sample_context]
  from r obtain out ctx' j where
    "select sample_api sample_input 0 (- 1) sample_context = (Inr out, ctx')"
    "(out, ctx') = select_depth sample_api sample_input 1 sample_context"
    "jobs ctx' = jobs sample_context @ [j]"
    "uint (block_index (params_buffer j)) = 1"
    unfolding s by auto
  then have "\<exists>out ctx' j.
         select sample_api sample_input 0 (- 1) sample_context = (Inr out, ctx')
       \<and> (out, ctx') = select_depth sample_api sample_input 1 sample_context
       \<and> jobs ctx' = jobs sample_context @ [j]
       \<and> uint (block_index (params_buffer j)) = 1"
    by blast
  with h show ?thesis by (intro conjI)
qed

subsection \<open>Dispatch geometry and the parameter block\<close>

text \<open>
  Claim C7. A depth-select call (axis 0) submits its job with a global work group size
  equal to the extents of the output texture it has just allocated, and with the local
  work group size that \<open>adaptive_work_group_size\<close> gives for that global size.
\<close>

theorem select_depth_geometry:
  assumes "tensor_dim t = 3"
    and "- tensor_size t 0 \<le> i" and "i < tensor_size t 0"
  shows "\<exists>v ctx' j. select api t 0 i ctx = (Inr (Vulkan v), ctx')
       \<and> Allocate v \<in> set ctx'
       \<and> jobs ctx' = jobs ctx @ [j]
       \<and> shader j = VK_KERNEL ''select_depth''
       \<and> global_work_group_size j = v_extents v
       \<and> local_work_group_size j = adaptive_work_group_size api (global_work_group_size j)"
proof -
  obtain v_in evs where td: "to_device api t ctx = (v_in, ctx @ evs)" and nj: "jobs evs = []"
    using to_device_cases [of api t ctx] by blast
  show ?thesis
    using assms nj
    by (simp add: select_valid select_depth_run [OF td] Let_def jobs_simps)
qed

theorem select_depth_geometry_witness:
  "tensor_dim sample_input = 3
   \<and> - tensor_size sample_input 0 \<le> 1 \<and> 1 < tensor_size sample_input 0
   \<and> (\<exists>v ctx' j. select sample_api sample_input 0 1 sample_context = (Inr (Vulkan v), ctx')
        \<and> v_extents v = Uvec3 4 3 1
        \<and> jobs ctx' = jobs sample_context @ [j]
        \<and> global_work_group_size j = Uvec3 4 3 1
        \<and> local_work_group_size j = Uvec3 4 4 4)"
proof -
  have h: "tensor_dim sample_input = 3"
    "- tensor_size sample_input 0 \<le> 1" "1 < tensor_size sample_input 0"
    by (simp_all add: tensor_dim_def tensor_size_def)
  have ev: "fst (select sample_api sample_input 0 1 sample_context) =
      Inr (Vulkan \<lparr>v_sizes = [3, 4], v_scalar_type = ''Float'',
                   v_extents = Uvec3 4 3 1, v_image = 1\<rparr>)"
    by (simp add: run_defs)
  from select_depth_geometry [OF h, where api = sample_api and ctx = sample_context]
  obtain v ctx' j where r:
    "select sample_api sample_input 0 1 sample_context = (Inr (Vulkan v), ctx')"
    "jobs ctx' = jobs sample_context @ [j]"
    "global_work_group_size j = v_extents v"
    "local_work_group_size j =
       adaptive_work_group_size sample_api (global_work_group_size j)"
    by blast
  from r(1) ev have "v_extents v = Uvec3 4 3 1" by simp
  with r have "\<exists>v ctx' j.
      select sample_api sample_input 0 1 sample_context = (Inr (Vulkan v), ctx')
        \<and> v_extents v = Uvec3 4 3 1
        \<and> jobs ctx' = jobs sample_context @ [j]
        \<and> global_work_group_size j = Uvec3 4 3 1
        \<and> local_work_group_size j = Uvec3 4 4 4"
    by (intro exI [of _ v] exI [of _ ctx'] exI [of _ j]) simp
  with h show ?thesis by (intro conjI)
qed

text \<open>
  Claim C1. A height-select call (axis 1) and a width-select call (axis 2) submit their
  job with the global work group size \<open>(e0, ceil(e1 / 4), 1)\<close>, where \<open>e0\<close> and \<open>e1\<close>
  are components 0 and 1 of the extents of the output texture the call has just
  allocated: \<open>W\<close> and \<open>C\<close> for axis 1, \<open>H\<close> and \<open>C\<close> for axis 2 in the source's reading
  of these extents. Nothing else, and no size of the input, enters the geometry.
\<close>

theorem select_height_width_geometry:
  assumes "tensor_dim t = 3" and "d = 1 \<or> d = 2"
    and "- tensor_size t d \<le> i" and "i < tensor_size t d"
  shows "\<exists>v ctx' j. select api t d i ctx = (Inr (Vulkan v), ctx')
       \<and> Allocate v \<in> set ctx'
       \<and> jobs ctx' = jobs ctx @ [j]
       \<and> shader j = VK_KERNEL (if d = 1 then ''select_height'' else ''select_width'')
       \<and> global_work_group_size j =
            Uvec3 (data (v_extents v) 0) (div_up (data (v_extents v) 1) 4) 1
       \<and> int (unat (data (global_work_group_size j) 1)) =
            \<lceil>real (unat (data (v_extents v) 1)) / 4\<rceil>"
proof -
  obtain v_in evs where td: "to_device api t ctx = (v_in, ctx @ evs)" and nj: "jobs evs = []"
    using to_device_cases [of api t ctx] by blast
  from assms(2) show ?thesis
  proof
    assume "d = 1"
    then show ?thesis
      using assms nj
      by (simp add: select_valid select_height_run [OF td] Let_def jobs_simps div_up_4_ceiling_uint)
  next
    assume "d = 2"
    then show ?thesis
      using assms nj
      by (simp add: select_valid select_width_run [OF td] Let_def jobs_simps div_up_4_ceiling_uint)
  qed
qed

theorem select_height_width_geometry_witness:
  "tensor_dim (Cpu [5, 3, 4] ''Float'') = 3
   \<and> - tensor_size (Cpu [5, 3, 4] ''Float'') 1 \<le> 2 \<and> 2 < tensor_size (Cpu [5, 3, 4] ''Float'') 1
   \<and> (\<exists>v ctx' j. select sample_api (Cpu [5, 3, 4] ''Float'') 1 2 [] = (Inr (Vulkan v), ctx')
        \<and> v_extents v = Uvec3 4 5 1
        \<and> jobs ctx' = [j]
        \<and> global_work_group_size j = Uvec3 4 2 1)
   \<and> tensor_dim sample_input = 3
   \<and> - tensor_size sample_input 2 \<le> 0 \<and> 0 < tensor_size sample_input 2
   \<and> (\<exists>v ctx' j. select sample_api sample_input 2 0 sample_context = (Inr (Vulkan v), ctx')
        \<and> v_extents v = Uvec3 3 2 1
        \<and> jobs ctx' = [j]
        \<and> global_work_group_size j = Uvec3 3 1 1)"
proof -
  have h: "tensor_dim (Cpu [5, 3, 4] ''Float'') = 3" "(1::int) = 1 \<or> (1::int) = 2"
    "- tensor_size (Cpu [5, 3, 4] ''Float'') 1 \<le> 2" "2 < tensor_size (Cpu [5, 3, 4] ''Float'') 1"
    by (simp_all add: tensor_dim_def tensor_size_def)
  have ev: "fst (select sample_api (Cpu [5, 3, 4] ''Float'') 1 2 []) =
      Inr (Vulkan \<lparr>v_sizes = [5, 4], v_scalar_type = ''Float'',
                   v_extents = Uvec3 4 5 1, v_image = 1\<rparr>)"
    by (simp add: run_defs)
  have q: "div_up 5 4 = 2" by (simp add: div_up_def)
  from select_height_width_geometry [OF h, where api = sample_api and ctx = "[]"]
  obtain v ctx' j where r:
    "select sample_api (Cpu [5, 3, 4] ''Float'') 1 2 [] = (Inr (Vulkan v), ctx')"
    "jobs ctx' = jobs ([] :: string Context) @ [j]"
    "global_work_group_size j =
       Uvec3 (data (v_extents v) 0) (div_up (data (v_extents v) 1) 4) 1"
    by blast
  from r(1) ev have "v_extents v = Uvec3 4 5 1" by simp
  with r q have height: "\<exists>v ctx' j.
      select sample_api (Cpu [5, 3, 4] ''Float'') 1 2 [] = (Inr (Vulkan v), ctx')
        \<and> v_extents v = Uvec3 4 5 1
        \<and> jobs ctx' = [j]
        \<and> global_work_group_size j = Uvec3 4 2 1"
    by (intro exI [of _ v] exI [of _ ctx'] exI [of _ j]) (simp add: jobs_simps)
  have h': "tensor_dim sample_input = 3" "(2::int) = 1 \<or> (2::int) = 2"
    "- tensor_size sample_input 2 \<le> 0" "0 < tensor_size sample_input 2"
    by (simp_all add: tensor_dim_def tensor_size_def)
  have ev': "fst (select sample_api sample_input 2 0 sample_context) =
      Inr (Vulkan \<lparr>v_sizes = [2, 3], v_scalar_type = ''Float'',
                   v_extents = Uvec3 3 2 1, v_image = 1\<rparr>)"
    by (simp add: run_defs)
  have q': "div_up 2 4 = 1" by (simp add: div_up_def)
  from select_height_width_geometry [OF h', where api = sample_api and ctx = sample_context]
  obtain v' ctx'' j' where r':
    "select sample_api sample_input 2 0 sample_context = (Inr (Vulkan v'), ctx'')"
    "jobs ctx'' = jobs sample_context @ [j']"
    "global_work_group_size j' =
       Uvec3 (data (v_extents v') 0) (div_up (data (v_extents v') 1) 4) 1"
    by blast
  from r'(1) ev' have "v_extents v' = Uvec3 3 2 1" by simp
  with r' q' have width: "\<exists>v ctx' j.
      select sample_api sample_input 2 0 sample_context = (Inr (Vulkan v), ctx')
        \<and> v_extents v = Uvec3 3 2 1
        \<and> jobs ctx' = [j]
        \<and> global_work_group_size j = Uvec3 3 1 1"
    by (intro exI [of _ v'] exI [of _ ctx''] exI [of _ j']) (simp add: jobs_simps)
  from h(1,3,4) height h'(1,3,4) width show ?thesis by (intro conjI)
qed

text \<open>
  Claim C8. In each of the three plans the parameter block created for the shader, and
  bound to the job, is the \<open>Block\<close> of the source: the extents of the output texture
  (three unsigned 32-bit components) first, the selected index (one unsigned 32-bit
  integer) second.
\<close>

theorem select_parameter_block:
  assumes "tensor_dim t = 3"
    and "plan = select_depth \<or> plan = select_height \<or> plan = select_width"
  shows "\<exists>v ctx' j. plan api t i ctx = (Vulkan v, ctx')
       \<and> Allocate v \<in> set ctx'
       \<and> jobs ctx' = jobs ctx @ [j]
       \<and> params_buffer j = \<lparr>block_size = v_extents v, block_index = i\<rparr>
       \<and> Params (params_buffer j) \<in> set ctx'"
proof -
  obtain v_in evs where td: "to_device api t ctx = (v_in, ctx @ evs)" and nj: "jobs evs = []"
    using to_device_cases [of api t ctx] by blast
  from assms(2) consider "plan = select_depth" | "plan = select_height" | "plan = select_width"
    by blast
  then show ?thesis
  proof cases
    case 1
    then show ?thesis using nj by (simp add: select_depth_run [OF td] Let_def jobs_simps)
  next
    case 2
    then show ?thesis using nj by (simp add: select_height_run [OF td] Let_def jobs_simps)
  next
    case 3
    then show ?thesis using nj by (simp add: select_width_run [OF td] Let_def jobs_simps)
  qed
qed

theorem select_parameter_block_witness:
  "tensor_dim sample_input = 3
   \<and> (\<exists>v ctx' j. select_width sample_api sample_input 3 sample_context = (Vulkan v, ctx')
        \<and> v_extents v = Uvec3 3 2 1
        \<and> jobs ctx' = jobs sample_context @ [j]
        \<and> params_buffer j = \<lparr>block_size = Uvec3 3 2 1, block_index = 3\<rparr>)"
proof -
  have h: "tensor_dim sample_input = 3"
    "(select_width :: Api \<Rightarrow> string Tensor \<Rightarrow> _) = select_depth
      \<or> (select_width :: Api \<Rightarrow> string Tensor \<Rightarrow> _) = select_height
      \<or> (select_width :: Api \<Rightarrow> string Tensor \<Rightarrow> _) = select_width"
    by (simp_all add: tensor_dim_def)
  have ev: "fst (select_width sample_api sample_input 3 sample_context) =
      Vulkan \<lparr>v_sizes = [2, 3], v_scalar_type = ''Float'',
              v_extents = Uvec3 3 2 1, v_image = 1\<rparr>"
    by (simp add: run_defs)
  from select_parameter_block [OF h, where api = sample_api and ctx = sample_context and i = 3]
  obtain v ctx' j where r:
    "select_width sample_api sample_input 3 sample_context = (Vulkan v, ctx')"
    "jobs ctx' = jobs sample_context @ [j]"
    "params_buffer j = \<lparr>block_size = v_extents v, block_index = 3\<rparr>"
    by blast
  from r(1) ev have "v_extents v = Uvec3 3 2 1" by simp
  with r have "\<exists>v ctx' j.
      select_width sample_api sample_input 3 sample_context = (Vulkan v, ctx')
        \<and> v_extents v = Uvec3 3 2 1
        \<and> jobs ctx' = jobs sample_context @ [j]
        \<and> params_buffer j = \<lparr>block_size = Uvec3 3 2 1, block_index = 3\<rparr>"
    by (intro exI [of _ v] exI [of _ ctx'] exI [of _ j]) simp
  with h(1) show ?thesis by (intro conjI)
qed

subsection \<open>The input is left alone\<close>

text \<open>
  Claim C9. \<open>select\<close> takes its input by constant reference and returns a new tensor:
  the function of the embedding cannot change the input's shape or element type. What a
  call can change is the log, and there it only appends. On success the output is the
  texture allocated by this call, its handle is none of the earlier ones (in particular
  not the input's, for a device input allocated earlier), and the only texture that a job
  of this call binds for writing is the output's: the input's storage is only read.
\<close>

theorem select_input_not_mutated:
  assumes "\<forall>v_in. t = Vulkan v_in \<longrightarrow> v_image v_in < length ctx"
  shows "\<exists>evs. snd (select api t d i ctx) = ctx @ evs
       \<and> (\<forall>out. fst (select api t d i ctx) = Inr out \<longrightarrow>
            (\<exists>v. out = Vulkan v
               \<and> length ctx \<le> v_image v
               \<and> Allocate v \<in> set evs
               \<and> (\<forall>v_in. t = Vulkan v_in \<longrightarrow> v_image v_in \<noteq> v_image v)
               \<and> (\<forall>j \<in> set (jobs evs). \<forall>(h, s, a) \<in> set (arguments j).
                     a = WRITE \<longrightarrow> h = v_image v)))"
proof (cases "tensor_dim t = 3 \<and> 0 \<le> d \<and> d \<le> 2
               \<and> - tensor_size t d \<le> i \<and> i < tensor_size t d")
  case False
  then have "\<exists>e. select api t d i ctx = (Inl e, ctx)"
    by (auto simp: select_def Let_def)
  then show ?thesis by auto
next
  case True
  obtain v_in evs0 where td: "to_device api t ctx = (v_in, ctx @ evs0)"
    and nj: "jobs evs0 = []" and same: "\<forall>v'. t = Vulkan v' \<longrightarrow> v_in = v' \<and> evs0 = []"
    and cpu: "\<not> is_vulkan t \<longrightarrow> v_image v_in = length ctx"
    using to_device_cases [of api t ctx] by blast
  define n where "n = (if i < 0 then i + tensor_size t d else i)"
  define r where "r = (if d = 0 then select_depth api t (word_of_int n) ctx
              else if d = 1 then select_height api t (word_of_int n) ctx
              else select_width api t (word_of_int n) ctx)"
  have sel: "select api t d i ctx = (Inr (fst r), snd r)"
    using True by (simp add: select_valid Let_def r_def n_def)
  have "r = select_depth api t (word_of_int n) ctx \<or> r = select_height api t (word_of_int n) ctx
           \<or> r = select_width api t (word_of_int n) ctx"
    by (simp add: r_def)
  from plan_frame [OF td nj this]
  obtain v evs j where r: "r = (Vulkan v, ctx @ evs)"
    and img: "v_image v = length (ctx @ evs0)" and al: "Allocate v \<in> set evs"
    and js: "jobs evs = [j]"
    and args: "arguments j = [(v_image v, COMPUTE, WRITE), (v_image v_in, COMPUTE, READ)]"
    by blast
  have fresh: "length ctx \<le> v_image v" using img by simp
  have other: "\<forall>v'. t = Vulkan v' \<longrightarrow> v_image v' \<noteq> v_image v"
    using assms fresh by fastforce
  have wr: "\<forall>j \<in> set (jobs evs). \<forall>(h, s, a) \<in> set (arguments j). a = WRITE \<longrightarrow> h = v_image v"
    using js args by simp
  show ?thesis
    using sel r fresh al other wr by auto
qed

theorem select_input_not_mutated_witness:
  "v_image \<lparr>v_sizes = [2, 3, 4], v_scalar_type = ''Float'',
            v_extents = Uvec3 4 3 1, v_image = 0\<rparr> < length sample_context
   \<and> (\<exists>v evs. select sample_api sample_input 1 2 sample_context =
                  (Inr (Vulkan v), sample_context @ evs)
        \<and> length sample_context \<le> v_image v
        \<and> Allocate v \<in> set evs
        \<and> v_image v \<noteq> 0
        \<and> map arguments (jobs evs) = [[(v_image v, COMPUTE, WRITE), (0, COMPUTE, READ)]])"
proof -
  have h: "\<forall>v_in. sample_input = Vulkan v_in \<longrightarrow> v_image v_in < length sample_context"
    by simp
  have ev: "select sample_api sample_input 1 2 sample_context =
      (Inr (Vulkan \<lparr>v_sizes = [2, 4], v_scalar_type = ''Float'',
                    v_extents = Uvec3 4 2 1, v_image = 1\<rparr>),
       sample_context @
       [Allocate \<lparr>v_sizes = [2, 4], v_scalar_type = ''Float'',
                  v_extents = Uvec3 4 2 1, v_image = 1\<rparr>,
        Params \<lparr>block_size = Uvec3 4 2 1, block_index = 2\<rparr>,
        Barrier,
        Submit \<lparr>shader = VK_KERNEL ''select_height'',
                global_work_group_size = Uvec3 4 1 1,
                local_work_group_size = Uvec3 4 4 4,
                fence = None,
                arguments = [(1, COMPUTE, WRITE), (0, COMPUTE, READ)],
                params_buffer = \<lparr>block_size = Uvec3 4 2 1, block_index = 2\<rparr>\<rparr>])"
    by (simp add: run_defs)
  from select_input_not_mutated [OF h, where api = sample_api and d = 1 and i = 2]
  obtain evs v where r:
    "snd (select sample_api sample_input 1 2 sample_context) = sample_context @ evs"
    "fst (select sample_api sample_input 1 2 sample_context) = Inr (Vulkan v)"
    "length sample_context \<le> v_image v" "Allocate v \<in> set evs"
    "v_image v \<noteq> 0"
    unfolding ev by auto
  from r(1,2) have s: "select sample_api sample_input 1 2 sample_context =
      (Inr (Vulkan v), sample_context @ evs)"
    by (simp add: prod_eq_iff)
  from s ev have "map arguments (jobs evs) = [[(v_image v, COMPUTE, WRITE), (0, COMPUTE, READ)]]"
    by (auto simp: jobs_def)
  with s r(3-5) have "\<exists>v evs. select sample_api sample_input 1 2 sample_context =
                  (Inr (Vulkan v), sample_context @ evs)
        \<and> length sample_context \<le> v_image v
        \<and> Allocate v \<in> set evs
        \<and> v_image v \<noteq> 0
        \<and> map arguments (jobs evs) = [[(v_image v, COMPUTE, WRITE), (0, COMPUTE, READ)]]"
    by (intro exI [of _ v] exI [of _ evs] conjI)
  moreover have "v_image \<lparr>v_sizes = [2, 3, 4], v_scalar_type = ''Float'',
            v_extents = Uvec3 4 3 1, v_image = 0\<rparr> < length sample_context"
    by simp
  ultimately show ?thesis by (intro conjI)
qed

end
